theory Spec2Isabelle
  imports Main "HOL-Library.Multiset"
begin

section \<open>Data model\<close>

text \<open>
  A qubit identifier is a \<open>GridQubit\<close> (a row and a column), or an identifier of
  another class of the library: a \<open>LineQubit\<close> (a place \<open>x\<close> on a line), which has an
  \<open>is_adjacent\<close> method of its own, or a \<open>NamedQubit\<close> (a name), which has none. The
  last two have neither \<open>row\<close> nor \<open>col\<close>.
\<close>

datatype grid_qubit = GridQubit (row: int) (col: int)

datatype qubit = Grid grid_qubit | Line int | Named string

text \<open>
  The gate classes the two devices dispatch on. \<open>MeasurementGate\<close> carries its key,
  \<open>ShiftSwapNetworkGate\<close> the value its own \<open>acquaintance_size()\<close> method returns,
  \<open>SwapNetworkGate\<close> its \<open>part_lens\<close> and its optional \<open>acquaintance_size\<close>.
  \<open>OtherGate\<close> is a gate of none of these classes.
\<close>

datatype gate_kind =
    CZPowGate
  | XPowGate
  | YPowGate
  | PhasedXPowGate
  | MeasurementGate string
  | ZPowGate
  | AcquaintanceOpportunityGate
  | PermutationGate
  | BipartiteSwapNetworkGate
  | ShiftSwapNetworkGate int
  | SwapNetworkGate "int list" "int option"
  | OtherGate

text \<open>
  A gate object: its class, and its \<open>_acquaintance_size_\<close> attribute when it has one
  (what \<open>getattr(gate, '_acquaintance_size_', None)\<close> finds).
\<close>

record gate =
  kind :: gate_kind
  sizer :: "(nat \<Rightarrow> int) option"

text \<open>
  An operation is a \<open>GateOperation\<close> (a gate and its qubits) or an operation of another
  class, which has qubits and may or may not have a \<open>gate\<close> attribute (a
  \<open>ParallelGateOperation\<close> has one): \<open>OtherOperation\<close> carries the gate when there is
  one.
\<close>

datatype operation =
    GateOperation gate "qubit list"
  | OtherOperation "gate option" "qubit list"

fun qubits_of :: "operation \<Rightarrow> qubit list" where
  "qubits_of (GateOperation g qs) = qs"
| "qubits_of (OtherOperation a qs) = qs"

text \<open>The \<open>gate\<close> attribute of an operation, when it has one.\<close>

fun gate_attr :: "operation \<Rightarrow> gate option" where
  "gate_attr (GateOperation g qs) = Some g"
| "gate_attr (OtherOperation a qs) = a"

type_synonym moment = "operation list"

type_synonym duration = int

datatype error =
    UnsupportedOperationError
  | UnsupportedGateError
  | QubitNotOnDeviceError
  | NonLocalInteractionError
  | AdjacentInteractionError
  | DuplicateMeasurementKeyError string
  | TypeMismatchError
  | NotSupportedError
  | AttributeError

record XmonDevice =
  measurement_duration :: duration
  exp_w_duration :: duration
  exp_z_duration :: duration
  qubits :: "grid_qubit set"

section \<open>Helpers of the library\<close>

text \<open>
  Modelled from the spec: adjacency of positions (the class \<open>GridQubit\<close> is not part of
  the sources at hand). Two positions are adjacent when they are cardinal neighbours on the
  grid: the rows differ by one in the same column, or the columns differ by one in the
  same row.
\<close>

definition is_adjacent :: "grid_qubit \<Rightarrow> grid_qubit \<Rightarrow> bool" where
  "is_adjacent p q \<longleftrightarrow> \<bar>row p - row q\<bar> + \<bar>col p - col q\<bar> = 1"

text \<open>
  Modelled from the spec: the method \<open>GridQubit.is_adjacent(other)\<close>. It takes any qubit:
  a position is adjacent to the neighbouring positions and to nothing else.
\<close>

fun GridQubit_is_adjacent :: "grid_qubit \<Rightarrow> qubit \<Rightarrow> bool" where
  "GridQubit_is_adjacent p (Grid q) = is_adjacent p q"
| "GridQubit_is_adjacent p (Line y) = False"
| "GridQubit_is_adjacent p (Named n) = False"

text \<open>
  The method \<open>LineQubit.is_adjacent(other)\<close> of the library (not part of the sources at
  hand): a place on the line is adjacent to the two places next to it and to nothing
  else.
\<close>

fun LineQubit_is_adjacent :: "int \<Rightarrow> qubit \<Rightarrow> bool" where
  "LineQubit_is_adjacent x (Line y) = (\<bar>x - y\<bar> = 1)"
| "LineQubit_is_adjacent x (Grid q) = False"
| "LineQubit_is_adjacent x (Named n) = False"

text \<open>
  Modelled from the spec: \<open>ops.op_gate_of_type(op, T)\<close> is the gate of \<open>op\<close> when \<open>op\<close> is a
  gate operation whose gate is of class \<open>T\<close>, and nothing otherwise. The class test is
  passed as a predicate on the gate's class.
\<close>

fun op_gate_of_type :: "operation \<Rightarrow> (gate_kind \<Rightarrow> bool) \<Rightarrow> gate option" where
  "op_gate_of_type (GateOperation g qs) T = (if T (kind g) then Some g else None)"
| "op_gate_of_type (OtherOperation a qs) T = None"

fun is_MeasurementGate :: "gate_kind \<Rightarrow> bool" where
  "is_MeasurementGate (MeasurementGate k) = True"
| "is_MeasurementGate _ = False"

section \<open>The timing device\<close>

fun neighbors_of :: "XmonDevice \<Rightarrow> grid_qubit \<Rightarrow> grid_qubit list" where
  "neighbors_of dev qubit =
     filter (\<lambda>e. e \<in> qubits dev)
       [GridQubit (row qubit + 1) (col qubit),
        GridQubit (row qubit - 1) (col qubit),
        GridQubit (row qubit) (col qubit + 1),
        GridQubit (row qubit) (col qubit - 1)]"

definition duration_of :: "XmonDevice \<Rightarrow> operation \<Rightarrow> error + duration" where
  "duration_of dev operation =
     (if op_gate_of_type operation (\<lambda>k. k = CZPowGate) \<noteq> None then Inr (exp_z_duration dev)
      else if op_gate_of_type operation is_MeasurementGate \<noteq> None
        then Inr (measurement_duration dev)
      else if op_gate_of_type operation (\<lambda>k. k = XPowGate) \<noteq> None
              \<or> op_gate_of_type operation (\<lambda>k. k = YPowGate) \<noteq> None
              \<or> op_gate_of_type operation (\<lambda>k. k = PhasedXPowGate) \<noteq> None
        then Inr (exp_w_duration dev)
      else if op_gate_of_type operation (\<lambda>k. k = ZPowGate) \<noteq> None then Inr 0
      else Inl UnsupportedGateError)"

definition validate_gate :: "gate \<Rightarrow> error + unit" where
  "validate_gate g =
     (if kind g = CZPowGate \<or> kind g = XPowGate \<or> kind g = YPowGate
         \<or> kind g = PhasedXPowGate \<or> is_MeasurementGate (kind g) \<or> kind g = ZPowGate
      then Inr () else Inl UnsupportedGateError)"

text \<open>
  The loop over the qubits of an operation. Both of its raises (a qubit that is not a
  \<open>GridQubit\<close>, a qubit that is not on the device) are the error
  \<open>QubitNotOnDeviceError\<close>.
\<close>

fun validate_qubits :: "XmonDevice \<Rightarrow> qubit list \<Rightarrow> error + unit" where
  "validate_qubits dev [] = Inr ()"
| "validate_qubits dev (Line x # qs) = Inl QubitNotOnDeviceError"
| "validate_qubits dev (Named n # qs) = Inl QubitNotOnDeviceError"
| "validate_qubits dev (Grid q # qs) =
     (if q \<notin> qubits dev then Inl QubitNotOnDeviceError else validate_qubits dev qs)"

text \<open>
  \<open>cast(GridQubit, p).is_adjacent(q)\<close>: the cast does nothing at run time, so the call
  runs the \<open>is_adjacent\<close> method of the class of \<open>p\<close>, whatever that class is, and is an
  \<open>AttributeError\<close> when the class has no such method.
\<close>

fun cast_is_adjacent :: "qubit \<Rightarrow> qubit \<Rightarrow> error + bool" where
  "cast_is_adjacent (Grid p) other = Inr (GridQubit_is_adjacent p other)"
| "cast_is_adjacent (Line x) other = Inr (LineQubit_is_adjacent x other)"
| "cast_is_adjacent (Named n) other = Inl AttributeError"

fun validate_operation :: "XmonDevice \<Rightarrow> operation \<Rightarrow> error + unit" where
  "validate_operation dev (OtherOperation a qs) = Inl UnsupportedOperationError"
| "validate_operation dev (GateOperation g qs) =
     (case validate_gate g of
        Inl e \<Rightarrow> Inl e
      | Inr _ \<Rightarrow>
          (case validate_qubits dev qs of
             Inl e \<Rightarrow> Inl e
           | Inr _ \<Rightarrow>
               if length qs = 2 \<and> \<not> is_MeasurementGate (kind g) then
                 (case cast_is_adjacent (qs ! 0) (qs ! 1) of
                    Inl e \<Rightarrow> Inl e
                  | Inr b \<Rightarrow> if \<not> b then Inl NonLocalInteractionError else Inr ())
               else Inr ()))"

text \<open>
  Python's \<open>any\<close> over a generator: the items are computed one after the other, the
  first true one ends the scan, and an item that raises ends it with the error.
\<close>

fun py_any :: "(error + bool) list \<Rightarrow> error + bool" where
  "py_any [] = Inr False"
| "py_any (Inl e # xs) = Inl e"
| "py_any (Inr True # xs) = Inr True"
| "py_any (Inr False # xs) = py_any xs"

definition non_interacting :: "gate_kind \<Rightarrow> bool" where
  "non_interacting k \<longleftrightarrow>
     k = XPowGate \<or> k = YPowGate \<or> k = PhasedXPowGate \<or> is_MeasurementGate k \<or> k = ZPowGate"

text \<open>
  \<open>other_op.gate\<close> is read without a test of the class of \<open>other_op\<close>: an operation
  with a \<open>gate\<close> attribute goes on, one without is an \<open>AttributeError\<close>.
\<close>

definition check_if_exp11_operation_interacts :: "operation \<Rightarrow> operation \<Rightarrow> error + bool" where
  "check_if_exp11_operation_interacts exp11_op other_op =
     (case gate_attr other_op of
        None \<Rightarrow> Inl AttributeError
      | Some g \<Rightarrow>
          if non_interacting (kind g) then Inr False
          else py_any (concat (map (\<lambda>q. map (\<lambda>p. cast_is_adjacent q p) (qubits_of other_op))
                                 (qubits_of exp11_op))))"

definition check_if_exp11_operation_interacts_with_any ::
    "operation \<Rightarrow> operation list \<Rightarrow> error + bool" where
  "check_if_exp11_operation_interacts_with_any exp11_op others =
     py_any (map (check_if_exp11_operation_interacts exp11_op) others)"

text \<open>
  Modelled from the spec: \<open>Device.validate_moment\<close> of the base class (not part of the
  sources at hand): the operation validator runs on every operation of the moment, in
  order, and the first failure is the result.
\<close>

fun Device_validate_moment :: "XmonDevice \<Rightarrow> moment \<Rightarrow> error + unit" where
  "Device_validate_moment dev [] = Inr ()"
| "Device_validate_moment dev (operation # rest) =
     (case validate_operation dev operation of
        Inl e \<Rightarrow> Inl e
      | Inr _ \<Rightarrow> Device_validate_moment dev rest)"

text \<open>
  The two loops of \<open>validate_moment\<close>. The operations of a moment are objects, and
  \<open>other is not op\<close> compares identities: an operation is identified by its place in the
  moment, so the loops run over the operations paired with their indices.
\<close>

fun validate_moment_inner ::
    "nat \<Rightarrow> operation \<Rightarrow> (nat \<times> operation) list \<Rightarrow> error + unit" where
  "validate_moment_inner i operation [] = Inr ()"
| "validate_moment_inner i operation ((j, other) # rest) =
     (if j \<noteq> i then
        (case check_if_exp11_operation_interacts operation other of
           Inl e \<Rightarrow> Inl e
         | Inr b \<Rightarrow>
             if b then Inl AdjacentInteractionError
             else validate_moment_inner i operation rest)
      else validate_moment_inner i operation rest)"

fun validate_moment_outer ::
    "(nat \<times> operation) list \<Rightarrow> (nat \<times> operation) list \<Rightarrow> error + unit" where
  "validate_moment_outer all_ops [] = Inr ()"
| "validate_moment_outer all_ops ((i, operation) # rest) =
     (if op_gate_of_type operation (\<lambda>k. k = CZPowGate) \<noteq> None then
        (case validate_moment_inner i operation all_ops of
           Inl e \<Rightarrow> Inl e
         | Inr _ \<Rightarrow> validate_moment_outer all_ops rest)
      else validate_moment_outer all_ops rest)"

definition validate_moment :: "XmonDevice \<Rightarrow> moment \<Rightarrow> error + unit" where
  "validate_moment dev m =
     (case Device_validate_moment dev m of
        Inl e \<Rightarrow> Inl e
      | Inr _ \<Rightarrow> validate_moment_outer (enumerate 0 m) (enumerate 0 m))"

text \<open>
  \<open>can_add_operation_into_moment\<close>. The method of the base class that it calls first is
  not part of the sources at hand; it is the parameter \<open>super_can_add\<close>.
\<close>

definition can_add_operation_into_moment ::
    "(operation \<Rightarrow> moment \<Rightarrow> bool) \<Rightarrow> XmonDevice \<Rightarrow> operation \<Rightarrow> moment \<Rightarrow> error + bool" where
  "can_add_operation_into_moment super_can_add dev operation m =
     (case validate_moment dev m of
        Inl e \<Rightarrow> Inl e
      | Inr _ \<Rightarrow>
          if \<not> super_can_add operation m then Inr False
          else if op_gate_of_type operation (\<lambda>k. k = CZPowGate) \<noteq> None then
            (case check_if_exp11_operation_interacts_with_any operation m of
               Inl e \<Rightarrow> Inl e
             | Inr b \<Rightarrow> Inr (\<not> b))
          else Inr True)"

text \<open>
  The method reads the moment and assigns to nothing; with the moment passed as state, the
  call gives its result and the moment it was given.
\<close>

definition can_add_operation_into_moment_state ::
    "(operation \<Rightarrow> moment \<Rightarrow> bool) \<Rightarrow> XmonDevice \<Rightarrow> operation \<Rightarrow> moment
       \<Rightarrow> (error + bool) \<times> moment" where
  "can_add_operation_into_moment_state super_can_add dev operation m =
     (can_add_operation_into_moment super_can_add dev operation m, m)"

text \<open>
  Modelled from the spec: \<open>Device.can_add_operation_into_moment\<close> of the base class (not
  part of the sources at hand), a value for the parameter \<open>super_can_add\<close>. No two
  operations of a moment share a qubit, so the base class refuses an operation that acts
  on a qubit the moment already acts on.
\<close>

definition Device_can_add_operation_into_moment :: "operation \<Rightarrow> moment \<Rightarrow> bool" where
  "Device_can_add_operation_into_moment operation m \<longleftrightarrow>
     \<not> (\<exists>q\<in>set (qubits_of operation). \<exists>other\<in>set m. q \<in> set (qubits_of other))"

section \<open>Whole-circuit validation\<close>

text \<open>
  Modelled from the spec: \<open>protocols.is_measurement\<close> and \<open>protocols.measurement_key\<close>
  (not part of the sources at hand): a measurement-kind operation is a gate operation of a
  measurement gate, and its key is the string attached to that gate.
\<close>

fun measurement_key :: "operation \<Rightarrow> string option" where
  "measurement_key (GateOperation g qs) =
     (case kind g of MeasurementGate k \<Rightarrow> Some k | _ \<Rightarrow> None)"
| "measurement_key (OtherOperation a qs) = None"

definition is_measurement :: "operation \<Rightarrow> bool" where
  "is_measurement operation \<longleftrightarrow> measurement_key operation \<noteq> None"

fun verify_keys_loop :: "string set \<Rightarrow> operation list \<Rightarrow> error + unit" where
  "verify_keys_loop seen [] = Inr ()"
| "verify_keys_loop seen (operation # rest) =
     (if is_measurement operation then
        (let key = the (measurement_key operation) in
           if key \<in> seen then Inl (DuplicateMeasurementKeyError key)
           else verify_keys_loop (insert key seen) rest)
      else verify_keys_loop seen rest)"

definition verify_unique_measurement_keys :: "operation list \<Rightarrow> error + unit" where
  "verify_unique_measurement_keys operations = verify_keys_loop {} operations"

text \<open>
  A circuit has a device and a sequence of moments; \<open>all_operations\<close> walks the moments
  in order. Of the device only its class matters to the code at hand: an
  \<open>AcquaintanceDevice\<close> or not.
\<close>

datatype circuit_device = AcquaintanceDevice | OtherDevice

record circuit =
  device :: circuit_device
  moments :: "moment list"

definition all_operations :: "circuit \<Rightarrow> operation list" where
  "all_operations c = concat (moments c)"

text \<open>
  Modelled from the spec: \<open>Device.validate_circuit\<close> of the base class (not part of the
  sources at hand) validates every moment of the circuit, in order.
\<close>

fun Device_validate_circuit :: "XmonDevice \<Rightarrow> moment list \<Rightarrow> error + unit" where
  "Device_validate_circuit dev [] = Inr ()"
| "Device_validate_circuit dev (m # rest) =
     (case validate_moment dev m of
        Inl e \<Rightarrow> Inl e
      | Inr _ \<Rightarrow> Device_validate_circuit dev rest)"

definition validate_circuit :: "XmonDevice \<Rightarrow> circuit \<Rightarrow> error + unit" where
  "validate_circuit dev c =
     (case Device_validate_circuit dev (moments c) of
        Inl e \<Rightarrow> Inl e
      | Inr _ \<Rightarrow> verify_unique_measurement_keys (all_operations c))"

section \<open>The acquaintance-only device\<close>

text \<open>
  \<open>validate_operation\<close> tests \<open>isinstance(operation.gate, self.gate_types)\<close> with
  \<open>gate_types = (AcquaintanceOpportunityGate, PermutationGate)\<close>. Which gate classes are
  subclasses of \<open>PermutationGate\<close> is declared outside the sources at hand, so the test
  for \<open>PermutationGate\<close> is the parameter \<open>isinstance_PermutationGate\<close>. The single raise
  of the method is \<open>UnsupportedOperationError\<close> for an operation that is not a gate
  operation and \<open>UnsupportedGateError\<close> for a gate of another class.
\<close>

fun AcquaintanceDevice_validate_operation ::
    "(gate_kind \<Rightarrow> bool) \<Rightarrow> operation \<Rightarrow> error + unit" where
  "AcquaintanceDevice_validate_operation isinstance_PermutationGate (OtherOperation a qs) =
     Inl UnsupportedOperationError"
| "AcquaintanceDevice_validate_operation isinstance_PermutationGate (GateOperation g qs) =
     (if kind g = AcquaintanceOpportunityGate \<or> isinstance_PermutationGate (kind g)
      then Inr () else Inl UnsupportedGateError)"

record scheduled_operation =
  sched_time :: int
  sched_duration :: duration
  sched_operation :: operation

type_synonym schedule = "scheduled_operation list"

definition AcquaintanceDevice_duration_of :: "operation \<Rightarrow> error + duration" where
  "AcquaintanceDevice_duration_of operation = Inl NotSupportedError"

definition AcquaintanceDevice_validate_scheduled_operation ::
    "schedule \<Rightarrow> scheduled_operation \<Rightarrow> error + unit" where
  "AcquaintanceDevice_validate_scheduled_operation sched scheduled = Inl NotSupportedError"

definition AcquaintanceDevice_validate_schedule :: "schedule \<Rightarrow> error + unit" where
  "AcquaintanceDevice_validate_schedule sched = Inl NotSupportedError"

section \<open>Acquaintance size\<close>

definition is_acquaintance_strategy :: "circuit \<Rightarrow> bool" where
  "is_acquaintance_strategy c \<longleftrightarrow> device c = AcquaintanceDevice"

text \<open>
  The last two lines of \<open>get_acquaintance_size\<close>: the optional hook of the gate, called
  with the number of qubits.
\<close>

definition sizer_result :: "gate \<Rightarrow> qubit list \<Rightarrow> int" where
  "sizer_result g qs = (case sizer g of None \<Rightarrow> 0 | Some f \<Rightarrow> f (length qs))"

text \<open>
  \<open>get_acquaintance_size\<close> on an operation. \<open>sorted(part_lens)[-2:]\<close> is the last two
  items of the sorted list, or all of it when it is shorter.
\<close>

fun operation_acquaintance_size :: "operation \<Rightarrow> int" where
  "operation_acquaintance_size (OtherOperation a qs) = 0"
| "operation_acquaintance_size (GateOperation g qs) =
     (case kind g of
        AcquaintanceOpportunityGate \<Rightarrow> int (length qs)
      | BipartiteSwapNetworkGate \<Rightarrow> 2
      | ShiftSwapNetworkGate n \<Rightarrow> n
      | SwapNetworkGate part_lens acquaintance_size \<Rightarrow>
          (case acquaintance_size of
             None \<Rightarrow> sum_list (drop (length part_lens - 2) (sort part_lens))
           | Some t \<Rightarrow> if t - 1 \<in> set part_lens then t else sizer_result g qs)
      | _ \<Rightarrow> sizer_result g qs)"

text \<open>\<open>max(xs or (0,))\<close>: the greatest item, or 0 when there is none.\<close>

fun max_or_zero :: "int list \<Rightarrow> int" where
  "max_or_zero [] = 0"
| "max_or_zero (x # xs) = fold max xs x"

datatype obj = Circuit circuit | Operation operation | OtherObject

fun get_acquaintance_size :: "obj \<Rightarrow> error + int" where
  "get_acquaintance_size (Circuit c) =
     (if \<not> is_acquaintance_strategy c then Inl TypeMismatchError
      else Inr (max_or_zero (map operation_acquaintance_size (all_operations c))))"
| "get_acquaintance_size (Operation operation) = Inr (operation_acquaintance_size operation)"
| "get_acquaintance_size OtherObject = Inl TypeMismatchError"

section \<open>Notions the properties are stated with\<close>

fun is_grid :: "qubit \<Rightarrow> bool" where
  "is_grid (Grid p) = True"
| "is_grid (Line x) = False"
| "is_grid (Named n) = False"

text \<open>An operand is on the device when it is a position of the device's topology.\<close>

fun on_device :: "XmonDevice \<Rightarrow> qubit \<Rightarrow> bool" where
  "on_device dev (Grid p) = (p \<in> qubits dev)"
| "on_device dev (Line x) = False"
| "on_device dev (Named n) = False"

text \<open>Two operands are grid-adjacent when both are positions and the positions are adjacent.\<close>

fun grid_adjacent :: "qubit \<Rightarrow> qubit \<Rightarrow> bool" where
  "grid_adjacent (Grid p) (Grid q) = is_adjacent p q"
| "grid_adjacent _ _ = False"

text \<open>A two-qubit interaction is what the code recognises by \<open>op_gate_of_type(op, CZPowGate)\<close>.\<close>

definition is_CZ :: "operation \<Rightarrow> bool" where
  "is_CZ operation \<longleftrightarrow> op_gate_of_type operation (\<lambda>k. k = CZPowGate) \<noteq> None"

text \<open>A qubit has an adjacency test when its class has an \<open>is_adjacent\<close> method.\<close>

fun has_adjacency_test :: "qubit \<Rightarrow> bool" where
  "has_adjacency_test (Grid p) = True"
| "has_adjacency_test (Line x) = True"
| "has_adjacency_test (Named n) = False"

text \<open>Adjacency by the first qubit's own test; a qubit without a test is adjacent to nothing.\<close>

fun own_adjacent :: "qubit \<Rightarrow> qubit \<Rightarrow> bool" where
  "own_adjacent (Grid p) other = GridQubit_is_adjacent p other"
| "own_adjacent (Line x) other = LineQubit_is_adjacent x other"
| "own_adjacent (Named n) other = False"

text \<open>
  An operand decides the scan of \<open>interacts\<close> over the operands \<open>ps\<close> when it has no
  adjacency test or is adjacent, by its own test, to one of \<open>ps\<close>.
\<close>

definition decides :: "qubit list \<Rightarrow> qubit \<Rightarrow> bool" where
  "decides ps q \<longleftrightarrow> \<not> has_adjacency_test q \<or> (\<exists>p\<in>set ps. own_adjacent q p)"

text \<open>The measurement keys of a sequence of operations, in scan order.\<close>

definition measurement_keys :: "operation list \<Rightarrow> string list" where
  "measurement_keys operations = List.map_filter measurement_key operations"

text \<open>Some measurement key is carried by two measurement operations of the sequence.\<close>

definition repeated_key :: "operation list \<Rightarrow> bool" where
  "repeated_key operations \<longleftrightarrow>
     (\<exists>i j. i < j \<and> j < length operations \<and> is_measurement (operations ! i)
        \<and> measurement_key (operations ! i) = measurement_key (operations ! j))"

section \<open>Example values\<close>

text \<open>
  The two-by-two grid of the concrete scenarios, a gate without the optional hook, and a
  position as an operand.
\<close>

definition square_device :: XmonDevice where
  "square_device = \<lparr>measurement_duration = 1000, exp_w_duration = 20, exp_z_duration = 50,
     qubits = {GridQubit 0 0, GridQubit 0 1, GridQubit 1 0, GridQubit 1 1}\<rparr>"

definition plain_gate :: "gate_kind \<Rightarrow> gate" where
  "plain_gate k = \<lparr>kind = k, sizer = None\<rparr>"

definition at :: "int \<Rightarrow> int \<Rightarrow> qubit" where
  "at r c = Grid (GridQubit r c)"

text \<open>
  The moment of the conflict scenario, a moment with one two-qubit interaction, a moment
  with one rotation, and two circuits of two measurements each.
\<close>

definition conflicting_moment :: moment where
  "conflicting_moment =
     [GateOperation (plain_gate CZPowGate) [at 0 0, at 0 1],
      GateOperation (plain_gate CZPowGate) [at 1 0, at 1 1]]"

definition top_moment :: moment where
  "top_moment = [GateOperation (plain_gate CZPowGate) [at 0 0, at 0 1]]"

definition rotation_moment :: moment where
  "rotation_moment = [GateOperation (plain_gate XPowGate) [at 0 0]]"

definition measure_op :: "string \<Rightarrow> qubit \<Rightarrow> operation" where
  "measure_op k q = GateOperation (plain_gate (MeasurementGate k)) [q]"

definition duplicate_key_circuit :: circuit where
  "duplicate_key_circuit =
     \<lparr>device = OtherDevice, moments = [[measure_op ''m'' (at 0 0), measure_op ''m'' (at 0 1)]]\<rparr>"

definition distinct_key_circuit :: circuit where
  "distinct_key_circuit =
     \<lparr>device = OtherDevice, moments = [[measure_op ''m'' (at 0 0), measure_op ''n'' (at 0 1)]]\<rparr>"

text \<open>
  A class test that takes only \<open>PermutationGate\<close> itself for a permutation gate, and
  two acquaintance strategies.
\<close>

definition only_PermutationGate :: "gate_kind \<Rightarrow> bool" where
  "only_PermutationGate k \<longleftrightarrow> k = PermutationGate"

definition empty_strategy :: circuit where
  "empty_strategy = \<lparr>device = AcquaintanceDevice, moments = []\<rparr>"

definition small_strategy :: circuit where
  "small_strategy =
     \<lparr>device = AcquaintanceDevice,
      moments =
        [[GateOperation (plain_gate AcquaintanceOpportunityGate) [at 0 0, at 0 1, at 0 2]],
         [GateOperation (plain_gate BipartiteSwapNetworkGate) [at 0 0, at 0 1, at 0 2, at 0 3]],
         [GateOperation (plain_gate (SwapNetworkGate [1, 3, 2] None)) [at 0 0]]]\<rparr>"

section \<open>Properties of the topology\<close>

text \<open>
  C8. The neighbours of a position \<open>p\<close> are exactly those of its four cardinal grid
  neighbours (row plus or minus one in the same column, column plus or minus one in the
  same row) that are members of the topology; \<open>p\<close> itself is never among them, and
  neither is any diagonal position.
\<close>

theorem neighbors_of_cardinal:
  "set (neighbors_of dev (GridQubit r c)) =
     {GridQubit (r + 1) c, GridQubit (r - 1) c, GridQubit r (c + 1), GridQubit r (c - 1)}
       \<inter> qubits dev
   \<and> GridQubit r c \<notin> set (neighbors_of dev (GridQubit r c))
   \<and> GridQubit (r + 1) (c + 1) \<notin> set (neighbors_of dev (GridQubit r c))
   \<and> GridQubit (r + 1) (c - 1) \<notin> set (neighbors_of dev (GridQubit r c))
   \<and> GridQubit (r - 1) (c + 1) \<notin> set (neighbors_of dev (GridQubit r c))
   \<and> GridQubit (r - 1) (c - 1) \<notin> set (neighbors_of dev (GridQubit r c))"
  by auto

section \<open>Helper lemmas\<close>

lemma validate_qubits_iff:
  "validate_qubits dev qs = (if \<exists>q\<in>set qs. \<not> on_device dev q then Inl QubitNotOnDeviceError else Inr ())"
  by (induction dev qs rule: validate_qubits.induct) auto

lemma cast_is_adjacent_grid:
  "is_grid q \<Longrightarrow> cast_is_adjacent q p = Inr (grid_adjacent q p)"
  by (cases q; cases p) auto

lemma on_device_is_grid: "on_device dev q \<Longrightarrow> is_grid q"
  by (cases q) auto

lemma py_any_Inr: "py_any (map Inr bs) = Inr (True \<in> set bs)"
proof (induction bs)
  case Nil
  then show ?case by simp
next
  case (Cons b bs)
  then show ?case by (cases b) auto
qed

lemma py_any_grid:
  assumes "\<forall>q\<in>set qs. is_grid q"
  shows "py_any (concat (map (\<lambda>q. map (\<lambda>p. cast_is_adjacent q p) ps) qs))
           = Inr (\<exists>q\<in>set qs. \<exists>p\<in>set ps. grid_adjacent q p)"
proof -
  have "concat (map (\<lambda>q. map (\<lambda>p. cast_is_adjacent q p) ps) qs)
          = map Inr (concat (map (\<lambda>q. map (grid_adjacent q) ps) qs))"
    using assms by (simp add: map_concat cast_is_adjacent_grid cong: map_cong)
  then show ?thesis
    by (auto simp: py_any_Inr)
qed

lemma interacts_grid:
  assumes "\<forall>q\<in>set (qubits_of opA). is_grid q" and "gate_attr opB = Some g"
  shows "check_if_exp11_operation_interacts opA opB
           = Inr (\<not> non_interacting (kind g)
                  \<and> (\<exists>q\<in>set (qubits_of opA). \<exists>p\<in>set (qubits_of opB). grid_adjacent q p))"
  using py_any_grid[OF assms(1), of "qubits_of opB"] assms(2)
  by (simp add: check_if_exp11_operation_interacts_def)





lemma valid_operation_shape:
  assumes "validate_operation dev operation = Inr ()"
  shows "\<exists>g qs. operation = GateOperation g qs \<and> (\<forall>q\<in>set qs. is_grid q)"
proof (cases operation)
  case (GateOperation g qs)
  with assms have "\<forall>q\<in>set qs. on_device dev q"
    by (auto simp: validate_qubits_iff split: sum.splits if_splits)
  then show ?thesis using GateOperation by (auto dest: on_device_is_grid)
next
  case (OtherOperation a qs)
  with assms show ?thesis by simp
qed


lemma Device_validate_moment_iff:
  "Device_validate_moment dev m = Inr () \<longleftrightarrow> (\<forall>operation\<in>set m. validate_operation dev operation = Inr ())"
  by (induction m) (auto split: sum.splits)



lemmas ex_simps = square_device_def plain_gate_def at_def is_adjacent_def validate_gate_def
  check_if_exp11_operation_interacts_def
  non_interacting_def validate_moment_def is_CZ_def

lemma scenario_conflict:
  "validate_moment square_device
     [GateOperation (plain_gate CZPowGate) [at 0 0, at 0 1],
      GateOperation (plain_gate CZPowGate) [at 1 0, at 1 1]] = Inl AdjacentInteractionError"
  by (simp add: ex_simps enumerate_simps)


lemma py_any_total:
  assumes "\<forall>x\<in>set xs. \<exists>b. x = Inr b"
  shows "py_any xs = Inr (Inr True \<in> set xs)"
  using assms
proof (induction xs rule: py_any.induct)
  case 1
  then show ?case by simp
next
  case (2 e xs)
  then show ?case by simp
next
  case (3 xs)
  then show ?case by simp
next
  case (4 xs)
  then show ?case by auto
qed

lemma validate_moment_ok_valid:
  assumes "validate_moment dev m = Inr ()"
  shows "\<forall>operation\<in>set m. validate_operation dev operation = Inr ()"
proof -
  from assms have "Device_validate_moment dev m = Inr ()"
    by (auto simp: validate_moment_def split: sum.splits)
  then show ?thesis by (simp add: Device_validate_moment_iff)
qed

lemma interacts_with_any_valid:
  assumes ok: "validate_moment dev m = Inr ()"
    and grid: "\<forall>q\<in>set (qubits_of operation). is_grid q"
  shows "check_if_exp11_operation_interacts_with_any operation m
           = Inr (\<exists>other\<in>set m. check_if_exp11_operation_interacts operation other = Inr True)"
proof -
  have "\<exists>b. check_if_exp11_operation_interacts operation other = Inr b" if "other \<in> set m" for other
  proof -
    from validate_moment_ok_valid[OF ok] that
    have "validate_operation dev other = Inr ()" by blast
    from valid_operation_shape[OF this] obtain g ps
      where "other = GateOperation g ps" "\<forall>p\<in>set ps. is_grid p" by blast
    then show ?thesis using interacts_grid[OF grid, of other g] by simp
  qed
  then have "\<forall>x\<in>set (map (check_if_exp11_operation_interacts operation) m). \<exists>b. x = Inr b"
    by auto
  from py_any_total[OF this] show ?thesis
    by (force simp: check_if_exp11_operation_interacts_with_any_def image_iff)
qed

lemma top_moment_ok: "validate_moment square_device top_moment = Inr ()"
  by (simp add: ex_simps top_moment_def)

lemma measurement_keys_Nil: "measurement_keys [] = []"
  by (simp add: measurement_keys_def map_filter_simps)

lemma measurement_keys_Cons:
  "measurement_keys (operation # rest) =
     (case measurement_key operation of
        None \<Rightarrow> measurement_keys rest
      | Some k \<Rightarrow> k # measurement_keys rest)"
  by (simp add: measurement_keys_def map_filter_simps split: option.splits)

lemma verify_keys_loop_ok:
  "verify_keys_loop seen operations = Inr () \<longleftrightarrow>
     distinct (measurement_keys operations) \<and> set (measurement_keys operations) \<inter> seen = {}"
proof (induction operations arbitrary: seen)
  case Nil
  then show ?case by (simp add: measurement_keys_Nil)
next
  case (Cons operation rest)
  show ?case
  proof (cases "measurement_key operation")
    case None
    then show ?thesis using Cons.IH[of seen]
      by (simp add: measurement_keys_Cons is_measurement_def)
  next
    case (Some k)
    then show ?thesis using Cons.IH[of "insert k seen"]
      by (auto simp: measurement_keys_Cons is_measurement_def)
  qed
qed

lemma verify_keys_loop_error:
  "verify_keys_loop seen operations = Inl e \<longleftrightarrow>
     (\<exists>n<length (measurement_keys operations).
        e = DuplicateMeasurementKeyError (measurement_keys operations ! n)
        \<and> distinct (take n (measurement_keys operations))
        \<and> set (take n (measurement_keys operations)) \<inter> seen = {}
        \<and> measurement_keys operations ! n \<in> set (take n (measurement_keys operations)) \<union> seen)"
proof (induction operations arbitrary: seen)
  case Nil
  then show ?case by (simp add: measurement_keys_Nil)
next
  case (Cons operation rest)
  let ?ks = "measurement_keys rest"
  show ?case
  proof (cases "measurement_key operation")
    case None
    then show ?thesis using Cons.IH[of seen]
      by (simp add: measurement_keys_Cons is_measurement_def)
  next
    case (Some k)
    let ?P = "\<lambda>n. n < length (k # ?ks)
        \<and> e = DuplicateMeasurementKeyError ((k # ?ks) ! n)
        \<and> distinct (take n (k # ?ks))
        \<and> set (take n (k # ?ks)) \<inter> seen = {}
        \<and> (k # ?ks) ! n \<in> set (take n (k # ?ks)) \<union> seen"
    show ?thesis
    proof (cases "k \<in> seen")
      case True
      have "(\<exists>n. ?P n) \<longleftrightarrow> e = DuplicateMeasurementKeyError k"
      proof
        assume "\<exists>n. ?P n"
        then obtain n where n: "?P n" by blast
        show "e = DuplicateMeasurementKeyError k"
        proof (cases n)
          case 0
          with n show ?thesis by simp
        next
          case (Suc n')
          with n True show ?thesis by auto
        qed
      next
        assume "e = DuplicateMeasurementKeyError k"
        with True have "?P 0" by simp
        then show "\<exists>n. ?P n" by blast
      qed
      with True Some show ?thesis
        by (auto simp: measurement_keys_Cons is_measurement_def)
    next
      case False
      let ?Q = "\<lambda>n. n < length ?ks
        \<and> e = DuplicateMeasurementKeyError (?ks ! n)
        \<and> distinct (take n ?ks)
        \<and> set (take n ?ks) \<inter> insert k seen = {}
        \<and> ?ks ! n \<in> set (take n ?ks) \<union> insert k seen"
      have "(\<exists>n. ?P n) \<longleftrightarrow> (\<exists>n. ?Q n)"
      proof
        assume "\<exists>n. ?P n"
        then obtain n where n: "?P n" by blast
        show "\<exists>n. ?Q n"
        proof (cases n)
          case 0
          with n False show ?thesis by simp
        next
          case (Suc n')
          with n have "?Q n'" by auto
          then show ?thesis by blast
        qed
      next
        assume "\<exists>n. ?Q n"
        then obtain n where n: "?Q n" by blast
        with False have "?P (Suc n)" by auto
        then show "\<exists>n. ?P n" by blast
      qed
      moreover have "verify_keys_loop seen (operation # rest) = verify_keys_loop (insert k seen) rest"
        using Some False by (simp add: is_measurement_def)
      ultimately show ?thesis using Cons.IH[of "insert k seen"] Some
        by (simp add: measurement_keys_Cons)
    qed
  qed
qed

lemma set_measurement_keys:
  "set (measurement_keys operations) = {k. \<exists>operation\<in>set operations. measurement_key operation = Some k}"
  by (induction operations) (auto simp: measurement_keys_Nil measurement_keys_Cons split: option.splits)

lemma repeated_key_Cons:
  "repeated_key (operation # rest) \<longleftrightarrow>
     (is_measurement operation \<and> (\<exists>other\<in>set rest. measurement_key other = measurement_key operation))
     \<or> repeated_key rest"
proof
  assume "repeated_key (operation # rest)"
  then obtain i j where ij: "i < j" "j < length (operation # rest)"
      "is_measurement ((operation # rest) ! i)"
      "measurement_key ((operation # rest) ! i) = measurement_key ((operation # rest) ! j)"
    unfolding repeated_key_def by blast
  from ij(1) obtain j' where j': "j = Suc j'" by (cases j) auto
  show "(is_measurement operation \<and> (\<exists>other\<in>set rest. measurement_key other = measurement_key operation))
     \<or> repeated_key rest"
  proof (cases i)
    case 0
    with ij j' have "is_measurement operation" "rest ! j' \<in> set rest"
      "measurement_key (rest ! j') = measurement_key operation" by auto
    then show ?thesis by blast
  next
    case (Suc i')
    with ij j' have "i' < j'" "j' < length rest" "is_measurement (rest ! i')"
      "measurement_key (rest ! i') = measurement_key (rest ! j')" by auto
    then show ?thesis unfolding repeated_key_def by blast
  qed
next
  assume a: "(is_measurement operation \<and> (\<exists>other\<in>set rest. measurement_key other = measurement_key operation))
     \<or> repeated_key rest"
  show "repeated_key (operation # rest)"
  proof (cases "repeated_key rest")
    case True
    then obtain i j where "i < j" "j < length rest" "is_measurement (rest ! i)"
      "measurement_key (rest ! i) = measurement_key (rest ! j)"
      unfolding repeated_key_def by blast
    then have "Suc i < Suc j \<and> Suc j < length (operation # rest)
        \<and> is_measurement ((operation # rest) ! Suc i)
        \<and> measurement_key ((operation # rest) ! Suc i) = measurement_key ((operation # rest) ! Suc j)"
      by simp
    then show ?thesis unfolding repeated_key_def by blast
  next
    case False
    with a obtain other where o: "is_measurement operation" "other \<in> set rest"
      "measurement_key other = measurement_key operation" by blast
    then obtain j where "j < length rest" "rest ! j = other" by (auto simp: in_set_conv_nth)
    with o have "0 < Suc j \<and> Suc j < length (operation # rest)
        \<and> is_measurement ((operation # rest) ! 0)
        \<and> measurement_key ((operation # rest) ! 0) = measurement_key ((operation # rest) ! Suc j)"
      by simp
    then show ?thesis unfolding repeated_key_def by blast
  qed
qed

lemma distinct_measurement_keys:
  "distinct (measurement_keys operations) \<longleftrightarrow> \<not> repeated_key operations"
proof (induction operations)
  case Nil
  then show ?case by (simp add: measurement_keys_Nil repeated_key_def)
next
  case (Cons operation rest)
  then show ?case
    by (auto simp: repeated_key_Cons measurement_keys_Cons set_measurement_keys
        is_measurement_def split: option.splits)
qed

lemma verify_fails_iff:
  "(\<exists>e. verify_unique_measurement_keys operations = Inl e) \<longleftrightarrow> repeated_key operations"
proof -
  have "(\<exists>e. verify_unique_measurement_keys operations = Inl e)
          \<longleftrightarrow> verify_unique_measurement_keys operations \<noteq> Inr ()"
    by (cases "verify_unique_measurement_keys operations") auto
  then show ?thesis
    by (simp add: verify_unique_measurement_keys_def verify_keys_loop_ok distinct_measurement_keys)
qed

lemma sorted_last_Max:
  fixes ys :: "int list"
  assumes "sorted ys" "ys \<noteq> []"
  shows "last ys = Max (set ys)"
proof -
  have "\<forall>y\<in>set ys. y \<le> last ys"
    using assms by (induction ys) (auto split: if_splits)
  moreover have "last ys \<in> set ys" using assms by simp
  ultimately show ?thesis by (intro Max_eqI[symmetric]) auto
qed

lemma two_last_shape:
  assumes "2 \<le> length ys"
  shows "\<exists>zs a b. ys = zs @ [a, b]"
proof (cases ys rule: rev_cases)
  case Nil
  with assms show ?thesis by simp
next
  case (snoc ws b)
  show ?thesis
  proof (cases ws rule: rev_cases)
    case Nil
    with snoc assms show ?thesis by simp
  next
    case (snoc zs a)
    with \<open>ys = ws @ [b]\<close> have "ys = zs @ [a, b]" by simp
    then show ?thesis by blast
  qed
qed

lemma two_largest:
  fixes xs :: "int list"
  assumes "2 \<le> length xs"
  shows "sum_list (drop (length xs - 2) (sort xs))
           = Max (set xs) + Max (set (remove1 (Max (set xs)) xs))"
proof -
  let ?M = "Max (set xs)"
  have "2 \<le> length (sort xs)" using assms by simp
  from two_last_shape[OF this] obtain zs a b where ys: "sort xs = zs @ [a, b]" by blast
  have srt: "sorted (zs @ [a, b])" using ys by (metis sorted_sort)
  have len: "length xs = length zs + 2"
    using ys by (metis length_sort length_append list.size(3,4) One_nat_def Suc_1 add_Suc_right add_0_right)
  have "last (zs @ [a, b]) = Max (set (zs @ [a, b]))"
    using srt by (intro sorted_last_Max) simp_all
  then have b: "b = ?M" using ys by (metis last_snoc append_Cons append_Nil append_assoc set_sort last.simps list.distinct(1) last_appendR)
  have "mset xs = mset (zs @ [a, b])" using ys by (metis mset_sort)
  then have "mset (remove1 ?M xs) = mset (zs @ [a])"
    using b by simp
  then have set_eq: "set (remove1 ?M xs) = set (zs @ [a])"
    by (metis set_mset_mset)
  have "sorted (zs @ [a])" using srt by (simp add: sorted_append)
  then have "last (zs @ [a]) = Max (set (zs @ [a]))"
    by (intro sorted_last_Max) simp_all
  then have a: "a = Max (set (remove1 ?M xs))" using set_eq by simp
  have "drop (length xs - 2) (sort xs) = [a, b]"
    unfolding ys len by simp
  with a b show ?thesis by simp
qed

lemma max_or_zero_Max:
  assumes "xs \<noteq> []"
  shows "max_or_zero xs = Max (set xs)"
proof (cases xs)
  case Nil
  with assms show ?thesis by simp
next
  case (Cons x rest)
  then show ?thesis using Max.set_eq_fold[of x rest] by simp
qed

lemma py_any_append_Inr:
  "py_any (map Inr bs @ rest) = (if True \<in> set bs then Inr True else py_any rest)"
proof (induction bs)
  case Nil
  then show ?case by simp
next
  case (Cons b bs)
  then show ?case by (cases b) auto
qed

lemma tests_with_method:
  "has_adjacency_test q \<Longrightarrow> map (cast_is_adjacent q) ps = map Inr (map (own_adjacent q) ps)"
  by (cases q) simp_all

lemma tests_without_method:
  "\<not> has_adjacency_test q \<Longrightarrow> ps \<noteq> [] \<Longrightarrow> py_any (map (cast_is_adjacent q) ps @ rest) = Inl AttributeError"
  by (cases q; cases ps) simp_all

lemma py_any_scan:
  assumes "ps \<noteq> []"
  shows "py_any (concat (map (\<lambda>q. map (\<lambda>p. cast_is_adjacent q p) ps) qs)) =
           (case find (decides ps) qs of
              None \<Rightarrow> Inr False
            | Some q \<Rightarrow> if has_adjacency_test q then Inr True else Inl AttributeError)"
proof (induction qs)
  case Nil
  then show ?case by simp
next
  case (Cons q qs)
  show ?case
  proof (cases "has_adjacency_test q")
    case True
    then show ?thesis
      using Cons.IH py_any_append_Inr[of "map (own_adjacent q) ps"]
      by (auto simp: tests_with_method decides_def)
  next
    case False
    then show ?thesis
      using tests_without_method[OF False assms] by (simp add: decides_def)
  qed
qed

lemma concat_map_Nil: "concat (map (\<lambda>q. []) qs) = []"
  by (induction qs) simp_all

lemma py_any_True_iff:
  "py_any xs = Inr True \<longleftrightarrow> (\<exists>i<length xs. xs ! i = Inr True \<and> (\<forall>j<i. xs ! j = Inr False))"
  by (induction xs rule: py_any.induct) (simp_all add: Ex_less_Suc2 All_less_Suc2)

lemma py_any_Inl_iff:
  "py_any xs = Inl e \<longleftrightarrow> (\<exists>i<length xs. xs ! i = Inl e \<and> (\<forall>j<i. xs ! j = Inr False))"
  by (induction xs rule: py_any.induct) (simp_all add: Ex_less_Suc2 All_less_Suc2)

lemma py_any_False_iff:
  "py_any xs = Inr False \<longleftrightarrow> (\<forall>x\<in>set xs. x = Inr False)"
  by (induction xs rule: py_any.induct) simp_all

lemma py_any_error_mem: "py_any xs = Inl e \<Longrightarrow> Inl e \<in> set xs"
  by (induction xs rule: py_any.induct) simp_all

lemma cast_is_adjacent_error: "cast_is_adjacent q p = Inl e \<Longrightarrow> e = AttributeError"
  by (cases q) simp_all

lemma interacts_error:
  assumes "check_if_exp11_operation_interacts a b = Inl e"
  shows "e = AttributeError"
proof (cases "gate_attr b")
  case None
  with assms show ?thesis by (simp add: check_if_exp11_operation_interacts_def)
next
  case (Some g)
  show ?thesis
  proof (cases "non_interacting (kind g)")
    case True
    with Some assms show ?thesis by (simp add: check_if_exp11_operation_interacts_def)
  next
    case False
    with Some assms have "py_any (concat (map (\<lambda>q. map (\<lambda>p. cast_is_adjacent q p) (qubits_of b))
                                 (qubits_of a))) = Inl e"
      by (simp add: check_if_exp11_operation_interacts_def)
    from py_any_error_mem[OF this] obtain q p where "cast_is_adjacent q p = Inl e" by auto
    then show ?thesis by (rule cast_is_adjacent_error)
  qed
qed

lemma can_add_CZ:
  assumes "validate_moment dev m = Inr ()" "super_can_add operation m" "is_CZ operation"
  shows "can_add_operation_into_moment super_can_add dev operation m =
           (case py_any (map (check_if_exp11_operation_interacts operation) m) of
              Inl e \<Rightarrow> Inl e | Inr b \<Rightarrow> Inr (\<not> b))"
  using assms
  by (simp add: can_add_operation_into_moment_def is_CZ_def
      check_if_exp11_operation_interacts_with_any_def)

section \<open>Properties of the timing device\<close>

text \<open>
  C1. For every operation with a gate and operands: \<open>validate_operation\<close> fails with
  \<open>UnsupportedGateError\<close> if the gate's kind is not one of two-qubit interaction,
  single-qubit rotation (X or Y), phased single-qubit rotation, measurement and virtual
  phase; otherwise with \<open>QubitNotOnDeviceError\<close> if some operand is not a position of
  the device's topology (not a position at all, or a position outside it); otherwise
  with \<open>NonLocalInteractionError\<close> if there are exactly two operands, the gate is not a
  measurement and the two operands are not grid-adjacent; otherwise it succeeds.
\<close>

theorem validate_operation_cases:
  "validate_operation dev (GateOperation g qs) =
     (if \<not> (kind g = CZPowGate \<or> kind g = XPowGate \<or> kind g = YPowGate
            \<or> kind g = PhasedXPowGate \<or> is_MeasurementGate (kind g) \<or> kind g = ZPowGate)
        then Inl UnsupportedGateError
      else if \<exists>q\<in>set qs. \<not> on_device dev q then Inl QubitNotOnDeviceError
      else if length qs = 2 \<and> \<not> is_MeasurementGate (kind g)
                \<and> \<not> grid_adjacent (qs ! 0) (qs ! 1)
        then Inl NonLocalInteractionError
      else Inr ())"
proof -
  have adj: "cast_is_adjacent (qs ! 0) (qs ! 1) = Inr (grid_adjacent (qs ! 0) (qs ! 1))"
    if "length qs = 2" "\<forall>q\<in>set qs. on_device dev q"
  proof -
    from that have "on_device dev (qs ! 0)" "on_device dev (qs ! 1)" by simp_all
    then show ?thesis by (intro cast_is_adjacent_grid on_device_is_grid[of dev])
  qed
  show ?thesis
    using adj by (auto simp: validate_gate_def validate_qubits_iff)
qed

theorem validate_operation_cases_witness:
  "validate_operation square_device (GateOperation (plain_gate CZPowGate) [at 0 0, at 1 1])
     = Inl NonLocalInteractionError
   \<and> validate_operation square_device (GateOperation (plain_gate CZPowGate) [at 0 0, at 0 1])
     = Inr ()
   \<and> validate_operation square_device (GateOperation (plain_gate XPowGate) [at 0 2])
     = Inl QubitNotOnDeviceError
   \<and> validate_operation square_device (GateOperation (plain_gate OtherGate) [at 0 2])
     = Inl UnsupportedGateError"
  using validate_operation_cases[of square_device "plain_gate CZPowGate" "[at 0 0, at 1 1]"]
    validate_operation_cases[of square_device "plain_gate CZPowGate" "[at 0 0, at 0 1]"]
    validate_operation_cases[of square_device "plain_gate XPowGate" "[at 0 2]"]
    validate_operation_cases[of square_device "plain_gate OtherGate" "[at 0 2]"]
  by (simp add: ex_simps)

text \<open>
  C2 (as stated) fails. An operand of the first operation that has no adjacency test
  (a named qubit) makes the call fail with \<open>AttributeError\<close>; operands on a line are
  tested by their own adjacency, so the call is true for neighbours on the line although
  no operand is a position; and a second operation without a gate makes the call fail
  with \<open>AttributeError\<close>.
\<close>

theorem interacts_counterexample:
  "check_if_exp11_operation_interacts
      (GateOperation (plain_gate CZPowGate) [Named ''a'', Named ''b''])
      (GateOperation (plain_gate CZPowGate) [at 0 0, at 0 1]) = Inl AttributeError
   \<and> check_if_exp11_operation_interacts
      (GateOperation (plain_gate CZPowGate) [Line 0, Line 5])
      (GateOperation (plain_gate CZPowGate) [Line 1, Line 9]) = Inr True
   \<and> \<not> grid_adjacent (Line 0) (Line 1) \<and> \<not> grid_adjacent (Line 0) (Line 9)
   \<and> \<not> grid_adjacent (Line 5) (Line 1) \<and> \<not> grid_adjacent (Line 5) (Line 9)
   \<and> check_if_exp11_operation_interacts
      (GateOperation (plain_gate CZPowGate) [at 0 0, at 0 1])
      (OtherOperation None [at 1 0]) = Inl AttributeError"
  by (simp add: ex_simps)

text \<open>
  C2 (amended). For every first operation and every second operation that carries a
  gate, \<open>interacts\<close> is false when the second operation's gate is a single-qubit
  rotation, a phased single-qubit rotation, a measurement or a virtual phase, whatever
  the operands. Otherwise, when every operand of the first operation is a position, it is
  true exactly when some operand of the first operation is grid-adjacent to some operand
  of the second. Otherwise, in general, the operands of the first operation are taken in
  order and each is tested against the operands of the second by its own adjacency test:
  the first of them that has no adjacency test, or is adjacent to some operand of the
  second operation, decides (the call fails with \<open>AttributeError\<close> in the first case
  and is true in the second), and the call is false when there is none or the second
  operation has no operand. When the second operation carries no gate, the call fails
  with \<open>AttributeError\<close>.
\<close>

theorem interacts_rule:
  "(gate_attr opB = None
      \<longrightarrow> check_if_exp11_operation_interacts opA opB = Inl AttributeError)
   \<and> (gate_attr opB = Some gB
        \<and> (kind gB = XPowGate \<or> kind gB = YPowGate \<or> kind gB = PhasedXPowGate
            \<or> is_MeasurementGate (kind gB) \<or> kind gB = ZPowGate)
      \<longrightarrow> check_if_exp11_operation_interacts opA opB = Inr False)
   \<and> (gate_attr opB = Some gB
        \<and> \<not> (kind gB = XPowGate \<or> kind gB = YPowGate \<or> kind gB = PhasedXPowGate
            \<or> is_MeasurementGate (kind gB) \<or> kind gB = ZPowGate)
        \<and> (\<forall>q\<in>set (qubits_of opA). is_grid q)
      \<longrightarrow> check_if_exp11_operation_interacts opA opB
            = Inr (\<exists>q\<in>set (qubits_of opA). \<exists>p\<in>set (qubits_of opB). grid_adjacent q p))
   \<and> (gate_attr opB = Some gB
        \<and> \<not> (kind gB = XPowGate \<or> kind gB = YPowGate \<or> kind gB = PhasedXPowGate
            \<or> is_MeasurementGate (kind gB) \<or> kind gB = ZPowGate)
      \<longrightarrow> check_if_exp11_operation_interacts opA opB
            = (if qubits_of opB = [] then Inr False
               else case find (decides (qubits_of opB)) (qubits_of opA) of
                      None \<Rightarrow> Inr False
                    | Some q \<Rightarrow> if has_adjacency_test q then Inr True else Inl AttributeError))"
proof (intro conjI impI)
  assume "gate_attr opB = None"
  then show "check_if_exp11_operation_interacts opA opB = Inl AttributeError"
    by (simp add: check_if_exp11_operation_interacts_def)
next
  assume "gate_attr opB = Some gB
        \<and> (kind gB = XPowGate \<or> kind gB = YPowGate \<or> kind gB = PhasedXPowGate
            \<or> is_MeasurementGate (kind gB) \<or> kind gB = ZPowGate)"
  then show "check_if_exp11_operation_interacts opA opB = Inr False"
    by (simp add: check_if_exp11_operation_interacts_def non_interacting_def)
next
  assume a: "gate_attr opB = Some gB
        \<and> \<not> (kind gB = XPowGate \<or> kind gB = YPowGate \<or> kind gB = PhasedXPowGate
            \<or> is_MeasurementGate (kind gB) \<or> kind gB = ZPowGate)
        \<and> (\<forall>q\<in>set (qubits_of opA). is_grid q)"
  then have "\<not> non_interacting (kind gB)" by (simp add: non_interacting_def)
  with a interacts_grid[of opA opB gB]
  show "check_if_exp11_operation_interacts opA opB
            = Inr (\<exists>q\<in>set (qubits_of opA). \<exists>p\<in>set (qubits_of opB). grid_adjacent q p)"
    by simp
next
  assume a: "gate_attr opB = Some gB
        \<and> \<not> (kind gB = XPowGate \<or> kind gB = YPowGate \<or> kind gB = PhasedXPowGate
            \<or> is_MeasurementGate (kind gB) \<or> kind gB = ZPowGate)"
  then have ni: "\<not> non_interacting (kind gB)" by (simp add: non_interacting_def)
  show "check_if_exp11_operation_interacts opA opB
            = (if qubits_of opB = [] then Inr False
               else case find (decides (qubits_of opB)) (qubits_of opA) of
                      None \<Rightarrow> Inr False
                    | Some q \<Rightarrow> if has_adjacency_test q then Inr True else Inl AttributeError)"
  proof (cases "qubits_of opB = []")
    case True
    with a ni show ?thesis
      by (simp add: check_if_exp11_operation_interacts_def concat_map_Nil)
  next
    case False
    with a ni py_any_scan[OF False, of "qubits_of opA"] show ?thesis
      by (simp add: check_if_exp11_operation_interacts_def)
  qed
qed

theorem interacts_rule_witness:
  "check_if_exp11_operation_interacts
      (GateOperation (plain_gate CZPowGate) [at 0 0, at 0 1])
      (OtherOperation None [at 1 0]) = Inl AttributeError
   \<and> check_if_exp11_operation_interacts
      (GateOperation (plain_gate CZPowGate) [at 0 0, at 0 1])
      (GateOperation (plain_gate XPowGate) [at 1 0]) = Inr False
   \<and> check_if_exp11_operation_interacts
      (GateOperation (plain_gate CZPowGate) [at 0 0, at 0 1])
      (GateOperation (plain_gate CZPowGate) [at 1 0, at 1 1]) = Inr True
   \<and> check_if_exp11_operation_interacts
      (GateOperation (plain_gate CZPowGate) [at 0 0, at 0 1])
      (GateOperation (plain_gate CZPowGate) [at 2 0, Named ''b'']) = Inr False
   \<and> check_if_exp11_operation_interacts
      (GateOperation (plain_gate CZPowGate) [at 0 0, at 0 1])
      (OtherOperation (Some (plain_gate CZPowGate)) [at 1 0, at 1 1]) = Inr True
   \<and> check_if_exp11_operation_interacts
      (GateOperation (plain_gate CZPowGate) [Named ''a'', at 0 0])
      (GateOperation (plain_gate CZPowGate) [at 1 0, at 1 1]) = Inl AttributeError
   \<and> check_if_exp11_operation_interacts
      (GateOperation (plain_gate CZPowGate) [at 0 0, Named ''a''])
      (GateOperation (plain_gate CZPowGate) [at 1 0, at 1 1]) = Inr True"
proof -
  let ?cz = "GateOperation (plain_gate CZPowGate) [at 0 0, at 0 1]"
  have 1: "check_if_exp11_operation_interacts ?cz (OtherOperation None [at 1 0])
      = Inl AttributeError"
    using interacts_rule[where opB = "OtherOperation None [at 1 0]" and opA = ?cz] by simp
  have 2: "check_if_exp11_operation_interacts ?cz
      (GateOperation (plain_gate XPowGate) [at 1 0]) = Inr False"
    using interacts_rule[where opB = "GateOperation (plain_gate XPowGate) [at 1 0]"
        and gB = "plain_gate XPowGate" and opA = ?cz]
    by (simp add: plain_gate_def)
  have 3: "check_if_exp11_operation_interacts ?cz
      (GateOperation (plain_gate CZPowGate) [at 1 0, at 1 1]) = Inr True"
    using interacts_rule[where opB = "GateOperation (plain_gate CZPowGate) [at 1 0, at 1 1]"
        and gB = "plain_gate CZPowGate" and opA = ?cz]
    by (simp add: plain_gate_def at_def is_adjacent_def)
  have 4: "check_if_exp11_operation_interacts ?cz
      (GateOperation (plain_gate CZPowGate) [at 2 0, Named ''b'']) = Inr False"
    using interacts_rule[where opB = "GateOperation (plain_gate CZPowGate) [at 2 0, Named ''b'']"
        and gB = "plain_gate CZPowGate" and opA = ?cz]
    by (simp add: plain_gate_def at_def is_adjacent_def)
  have 5: "check_if_exp11_operation_interacts ?cz
      (OtherOperation (Some (plain_gate CZPowGate)) [at 1 0, at 1 1]) = Inr True"
    using interacts_rule[where opB = "OtherOperation (Some (plain_gate CZPowGate)) [at 1 0, at 1 1]"
        and gB = "plain_gate CZPowGate" and opA = ?cz]
    by (simp add: plain_gate_def at_def is_adjacent_def)
  have 6: "check_if_exp11_operation_interacts
      (GateOperation (plain_gate CZPowGate) [Named ''a'', at 0 0])
      (GateOperation (plain_gate CZPowGate) [at 1 0, at 1 1]) = Inl AttributeError"
    using interacts_rule[where opB = "GateOperation (plain_gate CZPowGate) [at 1 0, at 1 1]"
        and gB = "plain_gate CZPowGate" and opA = "GateOperation (plain_gate CZPowGate) [Named ''a'', at 0 0]"]
    by (simp add: plain_gate_def at_def decides_def)
  have 7: "check_if_exp11_operation_interacts
      (GateOperation (plain_gate CZPowGate) [at 0 0, Named ''a''])
      (GateOperation (plain_gate CZPowGate) [at 1 0, at 1 1]) = Inr True"
    using interacts_rule[where opB = "GateOperation (plain_gate CZPowGate) [at 1 0, at 1 1]"
        and gB = "plain_gate CZPowGate" and opA = "GateOperation (plain_gate CZPowGate) [at 0 0, Named ''a'']"]
    by (simp add: plain_gate_def at_def decides_def is_adjacent_def)
  from 1 2 3 4 5 6 7 show ?thesis by blast
qed



text \<open>
  C4 (as stated) fails in three ways. When validating the existing moment fails,
  \<open>can_add_operation_into_moment\<close> does not return false: it fails with the error of
  \<open>validate_moment\<close> (the moment of the conflict scenario). When the moment validates
  and the operation is no two-qubit interaction, it does not always return true: it
  returns false when the check of the base class refuses the operation (a rotation on a
  qubit the moment already acts on). And for a two-qubit interaction on named qubits it
  returns neither: it fails with \<open>AttributeError\<close>.
\<close>

theorem can_add_raises_counterexample:
  "validate_moment square_device conflicting_moment = Inl AdjacentInteractionError
   \<and> can_add_operation_into_moment Device_can_add_operation_into_moment square_device
        (GateOperation (plain_gate XPowGate) [at 1 1]) conflicting_moment
      = Inl AdjacentInteractionError
   \<and> validate_moment square_device rotation_moment = Inr ()
   \<and> can_add_operation_into_moment Device_can_add_operation_into_moment square_device
        (GateOperation (plain_gate XPowGate) [at 0 0]) rotation_moment
      = Inr False
   \<and> validate_moment square_device top_moment = Inr ()
   \<and> can_add_operation_into_moment Device_can_add_operation_into_moment square_device
        (GateOperation (plain_gate CZPowGate) [Named ''a'', Named ''b'']) top_moment
      = Inl AttributeError"
proof -
  have 1: "validate_moment square_device conflicting_moment = Inl AdjacentInteractionError"
    using scenario_conflict by (simp add: conflicting_moment_def)
  then have 2: "can_add_operation_into_moment Device_can_add_operation_into_moment square_device
        (GateOperation (plain_gate XPowGate) [at 1 1]) conflicting_moment
      = Inl AdjacentInteractionError"
    by (simp add: can_add_operation_into_moment_def)
  have 3: "validate_moment square_device rotation_moment = Inr ()"
    by (simp add: rotation_moment_def ex_simps)
  then have 4: "can_add_operation_into_moment Device_can_add_operation_into_moment square_device
        (GateOperation (plain_gate XPowGate) [at 0 0]) rotation_moment
      = Inr False"
    by (simp add: can_add_operation_into_moment_def Device_can_add_operation_into_moment_def
        rotation_moment_def)
  have 5: "validate_moment square_device top_moment = Inr ()"
    by (rule top_moment_ok)
  then have 6: "can_add_operation_into_moment Device_can_add_operation_into_moment square_device
        (GateOperation (plain_gate CZPowGate) [Named ''a'', Named ''b'']) top_moment
      = Inl AttributeError"
    by (simp add: can_add_operation_into_moment_def Device_can_add_operation_into_moment_def
        check_if_exp11_operation_interacts_with_any_def top_moment_def ex_simps)
  from 1 2 3 4 5 6 show ?thesis by blast
qed

text \<open>
  C4 (amended). \<open>can_add_operation_into_moment\<close> fails with the error of
  \<open>validate_moment\<close> when validating the existing moment fails. Otherwise it returns
  false if the check of the base class refuses the operation. Otherwise, if the operation
  is a two-qubit interaction, it is checked against the operations of the moment in
  order, by the rule of \<open>interacts\<close>, and the first check that is not false decides: a
  conflict makes the call return false, a check that fails makes the call fail with that
  error, which is \<open>AttributeError\<close>, and the call returns true when every check is
  false; in particular, when every operand of the operation is a position, it returns
  false if the operation conflicts with some operation of the moment and true if not.
  Otherwise (the operation is no two-qubit interaction) it returns true. The moment
  after the call is the moment before it.
\<close>

theorem can_add_operation_into_moment_cases:
  "(validate_moment dev m = Inl e
      \<longrightarrow> can_add_operation_into_moment super_can_add dev operation m = Inl e)
   \<and> (validate_moment dev m = Inr () \<and> \<not> super_can_add operation m
      \<longrightarrow> can_add_operation_into_moment super_can_add dev operation m = Inr False)
   \<and> (validate_moment dev m = Inr () \<and> super_can_add operation m \<and> is_CZ operation
      \<longrightarrow> (can_add_operation_into_moment super_can_add dev operation m = Inr False
             \<longleftrightarrow> (\<exists>i<length m. check_if_exp11_operation_interacts operation (m ! i) = Inr True
                   \<and> (\<forall>j<i. check_if_exp11_operation_interacts operation (m ! j) = Inr False)))
          \<and> (can_add_operation_into_moment super_can_add dev operation m = Inl e
             \<longleftrightarrow> (\<exists>i<length m. check_if_exp11_operation_interacts operation (m ! i) = Inl e
                   \<and> (\<forall>j<i. check_if_exp11_operation_interacts operation (m ! j) = Inr False)))
          \<and> (can_add_operation_into_moment super_can_add dev operation m = Inl e
             \<longrightarrow> e = AttributeError)
          \<and> (can_add_operation_into_moment super_can_add dev operation m = Inr True
             \<longleftrightarrow> (\<forall>other\<in>set m.
                     check_if_exp11_operation_interacts operation other = Inr False)))
   \<and> (validate_moment dev m = Inr () \<and> super_can_add operation m \<and> is_CZ operation
        \<and> (\<forall>q\<in>set (qubits_of operation). is_grid q)
      \<longrightarrow> can_add_operation_into_moment super_can_add dev operation m
            = Inr (\<not> (\<exists>other\<in>set m.
                        check_if_exp11_operation_interacts operation other = Inr True)))
   \<and> (validate_moment dev m = Inr () \<and> super_can_add operation m \<and> \<not> is_CZ operation
      \<longrightarrow> can_add_operation_into_moment super_can_add dev operation m = Inr True)
   \<and> snd (can_add_operation_into_moment_state super_can_add dev operation m) = m"
proof -
  let ?r = "can_add_operation_into_moment super_can_add dev operation m"
  let ?f = "check_if_exp11_operation_interacts operation"
  have c1: "validate_moment dev m = Inl e \<longrightarrow> ?r = Inl e"
    by (simp add: can_add_operation_into_moment_def)
  have c2: "validate_moment dev m = Inr () \<and> \<not> super_can_add operation m \<longrightarrow> ?r = Inr False"
    by (simp add: can_add_operation_into_moment_def)
  have c5: "validate_moment dev m = Inr () \<and> super_can_add operation m \<and> \<not> is_CZ operation
      \<longrightarrow> ?r = Inr True"
    by (simp add: can_add_operation_into_moment_def is_CZ_def)
  have c6: "snd (can_add_operation_into_moment_state super_can_add dev operation m) = m"
    by (simp add: can_add_operation_into_moment_state_def)
  have c4: "validate_moment dev m = Inr () \<and> super_can_add operation m \<and> is_CZ operation
        \<and> (\<forall>q\<in>set (qubits_of operation). is_grid q)
      \<longrightarrow> ?r = Inr (\<not> (\<exists>other\<in>set m. ?f other = Inr True))"
  proof
    assume a: "validate_moment dev m = Inr () \<and> super_can_add operation m \<and> is_CZ operation
        \<and> (\<forall>q\<in>set (qubits_of operation). is_grid q)"
    then have "check_if_exp11_operation_interacts_with_any operation m
           = Inr (\<exists>other\<in>set m. ?f other = Inr True)"
      by (intro interacts_with_any_valid[of dev]) simp_all
    with a show "?r = Inr (\<not> (\<exists>other\<in>set m. ?f other = Inr True))"
      by (simp add: can_add_operation_into_moment_def is_CZ_def)
  qed
  have c3: "validate_moment dev m = Inr () \<and> super_can_add operation m \<and> is_CZ operation
      \<longrightarrow> (?r = Inr False
             \<longleftrightarrow> (\<exists>i<length m. ?f (m ! i) = Inr True \<and> (\<forall>j<i. ?f (m ! j) = Inr False)))
          \<and> (?r = Inl e
             \<longleftrightarrow> (\<exists>i<length m. ?f (m ! i) = Inl e \<and> (\<forall>j<i. ?f (m ! j) = Inr False)))
          \<and> (?r = Inl e \<longrightarrow> e = AttributeError)
          \<and> (?r = Inr True \<longleftrightarrow> (\<forall>other\<in>set m. ?f other = Inr False))"
  proof
    assume a: "validate_moment dev m = Inr () \<and> super_can_add operation m \<and> is_CZ operation"
    then have r: "?r = (case py_any (map ?f m) of Inl e \<Rightarrow> Inl e | Inr b \<Rightarrow> Inr (\<not> b))"
      by (intro can_add_CZ) simp_all
    have nth: "(\<exists>i<length m. map ?f m ! i = x \<and> (\<forall>j<i. map ?f m ! j = Inr False))
        \<longleftrightarrow> (\<exists>i<length m. ?f (m ! i) = x \<and> (\<forall>j<i. ?f (m ! j) = Inr False))" for x
      by (intro ex_cong1) (auto simp: nth_map)
    have rf: "?r = Inr False \<longleftrightarrow> py_any (map ?f m) = Inr True"
      and re: "?r = Inl e \<longleftrightarrow> py_any (map ?f m) = Inl e"
      and rt: "?r = Inr True \<longleftrightarrow> py_any (map ?f m) = Inr False"
      unfolding r by (cases "py_any (map ?f m)"; simp)+
    have f: "?r = Inr False
        \<longleftrightarrow> (\<exists>i<length m. ?f (m ! i) = Inr True \<and> (\<forall>j<i. ?f (m ! j) = Inr False))"
      unfolding rf using py_any_True_iff[of "map ?f m"] nth[of "Inr True"] by simp
    have er: "?r = Inl e
        \<longleftrightarrow> (\<exists>i<length m. ?f (m ! i) = Inl e \<and> (\<forall>j<i. ?f (m ! j) = Inr False))"
      unfolding re using py_any_Inl_iff[of "map ?f m" e] nth[of "Inl e"] by simp
    have at: "?r = Inl e \<longrightarrow> e = AttributeError"
      using er interacts_error by blast
    have t: "?r = Inr True \<longleftrightarrow> (\<forall>other\<in>set m. ?f other = Inr False)"
      unfolding rt using py_any_False_iff[of "map ?f m"] by simp
    from f er at t show "(?r = Inr False
             \<longleftrightarrow> (\<exists>i<length m. ?f (m ! i) = Inr True \<and> (\<forall>j<i. ?f (m ! j) = Inr False)))
          \<and> (?r = Inl e
             \<longleftrightarrow> (\<exists>i<length m. ?f (m ! i) = Inl e \<and> (\<forall>j<i. ?f (m ! j) = Inr False)))
          \<and> (?r = Inl e \<longrightarrow> e = AttributeError)
          \<and> (?r = Inr True \<longleftrightarrow> (\<forall>other\<in>set m. ?f other = Inr False))"
      by blast
  qed
  from c1 c2 c3 c4 c5 c6 show ?thesis by blast
qed

theorem can_add_operation_into_moment_cases_witness:
  "can_add_operation_into_moment Device_can_add_operation_into_moment square_device
        (GateOperation (plain_gate XPowGate) [at 1 1]) conflicting_moment
      = Inl AdjacentInteractionError
   \<and> can_add_operation_into_moment Device_can_add_operation_into_moment square_device
        (GateOperation (plain_gate XPowGate) [at 0 0]) rotation_moment = Inr False
   \<and> can_add_operation_into_moment Device_can_add_operation_into_moment square_device
        (GateOperation (plain_gate CZPowGate) [at 1 0, at 1 1]) top_moment = Inr False
   \<and> can_add_operation_into_moment Device_can_add_operation_into_moment square_device
        (GateOperation (plain_gate CZPowGate) [Named ''a'', Named ''b'']) top_moment
      = Inl AttributeError
   \<and> can_add_operation_into_moment Device_can_add_operation_into_moment square_device
        (GateOperation (plain_gate XPowGate) [at 1 0]) top_moment = Inr True
   \<and> snd (can_add_operation_into_moment_state Device_can_add_operation_into_moment
        square_device (GateOperation (plain_gate XPowGate) [at 1 0]) top_moment) = top_moment"
proof -
  let ?D = Device_can_add_operation_into_moment
  let ?x11 = "GateOperation (plain_gate XPowGate) [at 1 1]"
  let ?x00 = "GateOperation (plain_gate XPowGate) [at 0 0]"
  let ?x10 = "GateOperation (plain_gate XPowGate) [at 1 0]"
  let ?cz = "GateOperation (plain_gate CZPowGate) [at 1 0, at 1 1]"
  let ?czn = "GateOperation (plain_gate CZPowGate) [Named ''a'', Named ''b'']"
  note t = can_add_operation_into_moment_cases
  have bad: "validate_moment square_device conflicting_moment = Inl AdjacentInteractionError"
    using scenario_conflict by (simp add: conflicting_moment_def)
  have 1: "can_add_operation_into_moment ?D square_device ?x11 conflicting_moment
      = Inl AdjacentInteractionError"
    using t[where dev = square_device and m = conflicting_moment
        and e = AdjacentInteractionError and super_can_add = ?D and operation = ?x11] bad
    by blast
  have rot: "validate_moment square_device rotation_moment = Inr ()"
    by (simp add: rotation_moment_def ex_simps)
  have refuse: "\<not> ?D ?x00 rotation_moment"
    by (simp add: Device_can_add_operation_into_moment_def rotation_moment_def)
  have 2: "can_add_operation_into_moment ?D square_device ?x00 rotation_moment = Inr False"
    using t[where dev = square_device and m = rotation_moment and super_can_add = ?D
        and operation = ?x00] rot refuse
    by blast
  have cz: "is_CZ ?cz" "\<forall>q\<in>set (qubits_of ?cz). is_grid q" "?D ?cz top_moment"
    by (simp_all add: is_CZ_def plain_gate_def at_def top_moment_def
        Device_can_add_operation_into_moment_def)
  have conflict: "\<exists>other\<in>set top_moment. check_if_exp11_operation_interacts ?cz other = Inr True"
    by (simp add: top_moment_def ex_simps)
  have 3: "can_add_operation_into_moment ?D square_device ?cz top_moment = Inr False"
    using t[where dev = square_device and m = top_moment and super_can_add = ?D
        and operation = ?cz] top_moment_ok cz conflict
    by simp
  have czn: "is_CZ ?czn" "?D ?czn top_moment"
    by (simp_all add: is_CZ_def plain_gate_def at_def top_moment_def
        Device_can_add_operation_into_moment_def)
  have "0 < length top_moment
      \<and> check_if_exp11_operation_interacts ?czn (top_moment ! 0) = Inl AttributeError
      \<and> (\<forall>j<0. check_if_exp11_operation_interacts ?czn (top_moment ! j) = Inr False)"
    by (simp add: top_moment_def ex_simps)
  then have raises: "\<exists>i<length top_moment.
      check_if_exp11_operation_interacts ?czn (top_moment ! i) = Inl AttributeError
      \<and> (\<forall>j<i. check_if_exp11_operation_interacts ?czn (top_moment ! j) = Inr False)"
    by blast
  have 4: "can_add_operation_into_moment ?D square_device ?czn top_moment = Inl AttributeError"
    using t[where dev = square_device and m = top_moment and super_can_add = ?D
        and operation = ?czn and e = AttributeError] top_moment_ok czn raises
    by blast
  have x: "\<not> is_CZ ?x10" "?D ?x10 top_moment"
    by (simp_all add: is_CZ_def plain_gate_def at_def top_moment_def
        Device_can_add_operation_into_moment_def)
  have 5: "can_add_operation_into_moment ?D square_device ?x10 top_moment = Inr True"
    using t[where dev = square_device and m = top_moment and super_can_add = ?D
        and operation = ?x10] top_moment_ok x
    by blast
  have 6: "snd (can_add_operation_into_moment_state ?D square_device ?x10 top_moment)
      = top_moment"
    using t[where dev = square_device and m = top_moment and super_can_add = ?D
        and operation = ?x10]
    by blast
  from 1 2 3 4 5 6 show ?thesis by blast
qed

text \<open>
  C6. \<open>duration_of\<close> is the configured exp11 duration for a two-qubit interaction, the
  configured measurement duration for a measurement, the configured exp-w duration for a
  single-qubit rotation (X or Y) and a phased single-qubit rotation, the zero duration
  for a virtual phase, and fails with \<open>UnsupportedGateError\<close> for every other gate
  kind (and for an operation without a gate).
\<close>

theorem duration_of_cases:
  "duration_of dev operation =
     (case operation of
        OtherOperation a qs \<Rightarrow> Inl UnsupportedGateError
      | GateOperation g qs \<Rightarrow>
          (case kind g of
             CZPowGate \<Rightarrow> Inr (exp_z_duration dev)
           | MeasurementGate key \<Rightarrow> Inr (measurement_duration dev)
           | XPowGate \<Rightarrow> Inr (exp_w_duration dev)
           | YPowGate \<Rightarrow> Inr (exp_w_duration dev)
           | PhasedXPowGate \<Rightarrow> Inr (exp_w_duration dev)
           | ZPowGate \<Rightarrow> Inr 0
           | _ \<Rightarrow> Inl UnsupportedGateError))"
  by (auto simp: duration_of_def split: operation.splits gate_kind.splits)

theorem duration_of_cases_witness:
  "duration_of square_device (GateOperation (plain_gate CZPowGate) [at 0 0, at 0 1]) = Inr 50
   \<and> duration_of square_device (GateOperation (plain_gate (MeasurementGate ''m'')) [at 0 0]) = Inr 1000
   \<and> duration_of square_device (GateOperation (plain_gate YPowGate) [at 0 0]) = Inr 20
   \<and> duration_of square_device (GateOperation (plain_gate ZPowGate) [at 0 0]) = Inr 0
   \<and> duration_of square_device (GateOperation (plain_gate PermutationGate) [at 0 0])
        = Inl UnsupportedGateError
   \<and> duration_of square_device (OtherOperation None [at 0 0]) = Inl UnsupportedGateError"
  using duration_of_cases[of square_device "GateOperation (plain_gate CZPowGate) [at 0 0, at 0 1]"]
    duration_of_cases[of square_device "GateOperation (plain_gate (MeasurementGate ''m'')) [at 0 0]"]
    duration_of_cases[of square_device "GateOperation (plain_gate YPowGate) [at 0 0]"]
    duration_of_cases[of square_device "GateOperation (plain_gate ZPowGate) [at 0 0]"]
    duration_of_cases[of square_device "GateOperation (plain_gate PermutationGate) [at 0 0]"]
    duration_of_cases[of square_device "OtherOperation None [at 0 0]"]
  by (simp add: ex_simps)

section \<open>Properties of whole-circuit validation\<close>

text \<open>
  C7. \<open>verify_unique_measurement_keys\<close> fails exactly when some measurement key is
  carried by two measurement operations of the sequence; the error is
  \<open>DuplicateMeasurementKeyError\<close> with the first repeated key in scan order (the key at
  the first place whose key already occurred before it). So a circuit with such a
  repetition fails \<open>validate_circuit\<close> (with that error when its moments validate), and
  \<open>validate_circuit\<close> succeeds exactly when the moments validate and no key is repeated.
\<close>

theorem verify_unique_measurement_keys_first_repeat:
  "((\<exists>e. verify_unique_measurement_keys operations = Inl e) \<longleftrightarrow> repeated_key operations)
   \<and> (verify_unique_measurement_keys operations = Inl e \<longleftrightarrow>
        (\<exists>n<length (measurement_keys operations).
           e = DuplicateMeasurementKeyError (measurement_keys operations ! n)
           \<and> distinct (take n (measurement_keys operations))
           \<and> measurement_keys operations ! n \<in> set (take n (measurement_keys operations))))
   \<and> (repeated_key (all_operations c) \<longrightarrow> validate_circuit dev c \<noteq> Inr ())
   \<and> (Device_validate_circuit dev (moments c) = Inr () \<and> repeated_key (all_operations c)
        \<longrightarrow> (\<exists>k. validate_circuit dev c = Inl (DuplicateMeasurementKeyError k)))
   \<and> (validate_circuit dev c = Inr () \<longleftrightarrow>
        Device_validate_circuit dev (moments c) = Inr () \<and> \<not> repeated_key (all_operations c))"
proof -
  have ok: "verify_unique_measurement_keys ops = Inr () \<longleftrightarrow> \<not> repeated_key ops" for ops
    by (simp add: verify_unique_measurement_keys_def verify_keys_loop_ok distinct_measurement_keys)
  have err: "verify_unique_measurement_keys operations = Inl e \<longleftrightarrow>
        (\<exists>n<length (measurement_keys operations).
           e = DuplicateMeasurementKeyError (measurement_keys operations ! n)
           \<and> distinct (take n (measurement_keys operations))
           \<and> measurement_keys operations ! n \<in> set (take n (measurement_keys operations)))"
    using verify_keys_loop_error[of "{}" operations e]
    by (simp add: verify_unique_measurement_keys_def)
  have circ: "validate_circuit dev c = Inr () \<longleftrightarrow>
        Device_validate_circuit dev (moments c) = Inr () \<and> \<not> repeated_key (all_operations c)"
    by (auto simp: validate_circuit_def ok split: sum.splits)
  have dup: "\<exists>k. validate_circuit dev c = Inl (DuplicateMeasurementKeyError k)"
    if "Device_validate_circuit dev (moments c) = Inr ()" "repeated_key (all_operations c)"
  proof -
    from that(2) obtain e' where e': "verify_unique_measurement_keys (all_operations c) = Inl e'"
      using verify_fails_iff by blast
    then obtain k where "e' = DuplicateMeasurementKeyError k"
      using verify_keys_loop_error[of "{}" "all_operations c" e']
      by (auto simp: verify_unique_measurement_keys_def)
    with e' that(1) show ?thesis by (simp add: validate_circuit_def)
  qed
  from verify_fails_iff[of operations] err circ dup show ?thesis by blast
qed

theorem verify_unique_measurement_keys_first_repeat_witness:
  "repeated_key (all_operations duplicate_key_circuit)
   \<and> validate_circuit square_device duplicate_key_circuit
       = Inl (DuplicateMeasurementKeyError ''m'')
   \<and> Device_validate_circuit square_device (moments distinct_key_circuit) = Inr ()
   \<and> validate_circuit square_device distinct_key_circuit = Inr ()"
proof -
  have "(0::nat) < 1 \<and> 1 < length (all_operations duplicate_key_circuit)
      \<and> is_measurement (all_operations duplicate_key_circuit ! 0)
      \<and> measurement_key (all_operations duplicate_key_circuit ! 0)
          = measurement_key (all_operations duplicate_key_circuit ! 1)"
    by (simp add: all_operations_def duplicate_key_circuit_def measure_op_def plain_gate_def
        is_measurement_def)
  then have rep: "repeated_key (all_operations duplicate_key_circuit)"
    unfolding repeated_key_def by blast
  have base: "Device_validate_circuit square_device (moments duplicate_key_circuit) = Inr ()"
    by (simp add: duplicate_key_circuit_def measure_op_def ex_simps)
  have fails: "validate_circuit square_device duplicate_key_circuit
       = Inl (DuplicateMeasurementKeyError ''m'')"
    by (simp add: validate_circuit_def base verify_unique_measurement_keys_def
        all_operations_def is_measurement_def)
       (simp add: duplicate_key_circuit_def measure_op_def plain_gate_def is_measurement_def)
  have base2: "Device_validate_circuit square_device (moments distinct_key_circuit) = Inr ()"
    by (simp add: distinct_key_circuit_def measure_op_def ex_simps)
  have "distinct (measurement_keys (all_operations distinct_key_circuit))"
    by (simp add: all_operations_def distinct_key_circuit_def measure_op_def plain_gate_def
        measurement_keys_Cons measurement_keys_Nil)
  then have norep: "\<not> repeated_key (all_operations distinct_key_circuit)"
    by (simp add: distinct_measurement_keys)
  from verify_unique_measurement_keys_first_repeat[of _ _ distinct_key_circuit square_device]
    base2 norep
  have "validate_circuit square_device distinct_key_circuit = Inr ()" by blast
  with rep fails base2 show ?thesis by blast
qed

section \<open>Properties of the acquaintance size\<close>

text \<open>
  C5. The acquaintance size of an acquaintance-opportunity operation on k operands is k;
  of a bipartite-swap-network operation it is 2, whatever the operands; of a
  generic-swap-network operation with unset target size it is the sum of the last two of
  the sorted partition lengths, which is the sum of the two largest when there are at
  least two; with target size t it is t when t - 1 is among the partition lengths, and
  otherwise what the optional hook returns for the operand count, 0 without a hook. For
  a circuit it fails with \<open>TypeMismatchError\<close> unless the circuit is an acquaintance
  strategy; otherwise it is the maximum over the circuit's operations, 0 when there is
  none.
\<close>

theorem get_acquaintance_size_cases:
  "(kind g = AcquaintanceOpportunityGate
      \<longrightarrow> get_acquaintance_size (Operation (GateOperation g qs)) = Inr (int (length qs)))
   \<and> (kind g = BipartiteSwapNetworkGate
      \<longrightarrow> get_acquaintance_size (Operation (GateOperation g qs)) = Inr 2)
   \<and> (kind g = SwapNetworkGate part_lens None
      \<longrightarrow> get_acquaintance_size (Operation (GateOperation g qs))
            = Inr (sum_list (drop (length part_lens - 2) (sort part_lens))))
   \<and> (kind g = SwapNetworkGate part_lens None \<and> 2 \<le> length part_lens
      \<longrightarrow> get_acquaintance_size (Operation (GateOperation g qs))
            = Inr (Max (set part_lens)
                   + Max (set (remove1 (Max (set part_lens)) part_lens))))
   \<and> (kind g = SwapNetworkGate part_lens (Some t) \<and> t - 1 \<in> set part_lens
      \<longrightarrow> get_acquaintance_size (Operation (GateOperation g qs)) = Inr t)
   \<and> (kind g = SwapNetworkGate part_lens (Some t) \<and> t - 1 \<notin> set part_lens
      \<longrightarrow> get_acquaintance_size (Operation (GateOperation g qs))
            = Inr (case sizer g of None \<Rightarrow> 0 | Some f \<Rightarrow> f (length qs)))
   \<and> (\<not> is_acquaintance_strategy c
      \<longrightarrow> get_acquaintance_size (Circuit c) = Inl TypeMismatchError)
   \<and> (is_acquaintance_strategy c \<and> all_operations c = []
      \<longrightarrow> get_acquaintance_size (Circuit c) = Inr 0)
   \<and> (is_acquaintance_strategy c \<and> all_operations c \<noteq> []
      \<longrightarrow> get_acquaintance_size (Circuit c)
            = Inr (Max (operation_acquaintance_size ` set (all_operations c))))
   \<and> get_acquaintance_size (Operation operation) = Inr (operation_acquaintance_size operation)"
proof -
  have two: "kind g = SwapNetworkGate part_lens None \<and> 2 \<le> length part_lens
      \<longrightarrow> get_acquaintance_size (Operation (GateOperation g qs))
            = Inr (Max (set part_lens)
                   + Max (set (remove1 (Max (set part_lens)) part_lens)))"
    using two_largest[of part_lens] by simp
  have mx: "is_acquaintance_strategy c \<and> all_operations c \<noteq> []
      \<longrightarrow> get_acquaintance_size (Circuit c)
            = Inr (Max (operation_acquaintance_size ` set (all_operations c)))"
    using max_or_zero_Max[of "map operation_acquaintance_size (all_operations c)"] by simp
  have rest: "(kind g = AcquaintanceOpportunityGate
      \<longrightarrow> get_acquaintance_size (Operation (GateOperation g qs)) = Inr (int (length qs)))"
    "(kind g = BipartiteSwapNetworkGate
      \<longrightarrow> get_acquaintance_size (Operation (GateOperation g qs)) = Inr 2)"
    "(kind g = SwapNetworkGate part_lens None
      \<longrightarrow> get_acquaintance_size (Operation (GateOperation g qs))
            = Inr (sum_list (drop (length part_lens - 2) (sort part_lens))))"
    "(kind g = SwapNetworkGate part_lens (Some t) \<and> t - 1 \<in> set part_lens
      \<longrightarrow> get_acquaintance_size (Operation (GateOperation g qs)) = Inr t)"
    "(kind g = SwapNetworkGate part_lens (Some t) \<and> t - 1 \<notin> set part_lens
      \<longrightarrow> get_acquaintance_size (Operation (GateOperation g qs))
            = Inr (case sizer g of None \<Rightarrow> 0 | Some f \<Rightarrow> f (length qs)))"
    "(\<not> is_acquaintance_strategy c
      \<longrightarrow> get_acquaintance_size (Circuit c) = Inl TypeMismatchError)"
    "(is_acquaintance_strategy c \<and> all_operations c = []
      \<longrightarrow> get_acquaintance_size (Circuit c) = Inr 0)"
    "get_acquaintance_size (Operation operation) = Inr (operation_acquaintance_size operation)"
    by (simp_all add: sizer_result_def)
  from rest two mx show ?thesis by blast
qed

theorem get_acquaintance_size_cases_witness:
  "get_acquaintance_size
      (Operation (GateOperation (plain_gate AcquaintanceOpportunityGate) [at 0 0, at 0 1, at 0 2]))
     = Inr 3
   \<and> get_acquaintance_size
      (Operation (GateOperation (plain_gate BipartiteSwapNetworkGate) [at 0 0, at 0 1, at 0 2, at 0 3]))
     = Inr 2
   \<and> get_acquaintance_size
      (Operation (GateOperation (plain_gate (SwapNetworkGate [1, 3, 2] None)) [at 0 0]))
     = Inr 5
   \<and> get_acquaintance_size
      (Operation (GateOperation (plain_gate (SwapNetworkGate [1, 3, 2] (Some 4))) [at 0 0]))
     = Inr 4
   \<and> get_acquaintance_size
      (Operation (GateOperation (plain_gate (SwapNetworkGate [1, 3, 2] (Some 7))) [at 0 0]))
     = Inr 0
   \<and> get_acquaintance_size
      (Operation (GateOperation \<lparr>kind = SwapNetworkGate [1, 3, 2] (Some 7), sizer = Some int\<rparr>
         [at 0 0, at 0 1]))
     = Inr 2
   \<and> get_acquaintance_size (Circuit duplicate_key_circuit) = Inl TypeMismatchError
   \<and> get_acquaintance_size (Circuit empty_strategy) = Inr 0
   \<and> get_acquaintance_size (Circuit small_strategy) = Inr 5"
proof -
  note t = get_acquaintance_size_cases
  have 1: "get_acquaintance_size
      (Operation (GateOperation (plain_gate AcquaintanceOpportunityGate) [at 0 0, at 0 1, at 0 2]))
     = Inr 3"
    using t[of "plain_gate AcquaintanceOpportunityGate" "[at 0 0, at 0 1, at 0 2]"]
    by (simp add: plain_gate_def)
  have 2: "get_acquaintance_size
      (Operation (GateOperation (plain_gate BipartiteSwapNetworkGate) [at 0 0, at 0 1, at 0 2, at 0 3]))
     = Inr 2"
    using t[of "plain_gate BipartiteSwapNetworkGate" "[at 0 0, at 0 1, at 0 2, at 0 3]"]
    by (simp add: plain_gate_def)
  have 3: "get_acquaintance_size
      (Operation (GateOperation (plain_gate (SwapNetworkGate [1, 3, 2] None)) [at 0 0]))
     = Inr 5"
    using t[of "plain_gate (SwapNetworkGate [1, 3, 2] None)" "[at 0 0]" "[1, 3, 2]"]
    by (simp add: plain_gate_def)
  have 4: "get_acquaintance_size
      (Operation (GateOperation (plain_gate (SwapNetworkGate [1, 3, 2] (Some 4))) [at 0 0]))
     = Inr 4"
    using t[of "plain_gate (SwapNetworkGate [1, 3, 2] (Some 4))" "[at 0 0]" "[1, 3, 2]" 4]
    by (simp add: plain_gate_def)
  have 5: "get_acquaintance_size
      (Operation (GateOperation (plain_gate (SwapNetworkGate [1, 3, 2] (Some 7))) [at 0 0]))
     = Inr 0"
    using t[of "plain_gate (SwapNetworkGate [1, 3, 2] (Some 7))" "[at 0 0]" "[1, 3, 2]" 7]
    by (simp add: plain_gate_def)
  have 6: "get_acquaintance_size
      (Operation (GateOperation \<lparr>kind = SwapNetworkGate [1, 3, 2] (Some 7), sizer = Some int\<rparr>
         [at 0 0, at 0 1]))
     = Inr 2"
    using t[of "\<lparr>kind = SwapNetworkGate [1, 3, 2] (Some 7), sizer = Some int\<rparr>"
        "[at 0 0, at 0 1]" "[1, 3, 2]" 7]
    by simp
  have 7: "get_acquaintance_size (Circuit duplicate_key_circuit) = Inl TypeMismatchError"
    using t[of _ _ _ _ duplicate_key_circuit]
    by (simp add: is_acquaintance_strategy_def duplicate_key_circuit_def)
  have 8: "get_acquaintance_size (Circuit empty_strategy) = Inr 0"
    using t[of _ _ _ _ empty_strategy]
    by (simp add: is_acquaintance_strategy_def empty_strategy_def all_operations_def)
  have 9: "get_acquaintance_size (Circuit small_strategy) = Inr 5"
    by (simp add: is_acquaintance_strategy_def small_strategy_def all_operations_def
        plain_gate_def)
  from 1 2 3 4 5 6 7 8 9 show ?thesis by blast
qed

section \<open>Properties of the acquaintance-only device\<close>

text \<open>
  C9. On the acquaintance-only device \<open>duration_of\<close>, \<open>validate_scheduled_operation\<close>
  and \<open>validate_schedule\<close> fail with \<open>NotSupportedError\<close> on every input.
\<close>

theorem acquaintance_timing_unsupported:
  "AcquaintanceDevice_duration_of operation = Inl NotSupportedError
   \<and> AcquaintanceDevice_validate_scheduled_operation sched scheduled = Inl NotSupportedError
   \<and> AcquaintanceDevice_validate_schedule sched = Inl NotSupportedError"
  by (simp add: AcquaintanceDevice_duration_of_def
      AcquaintanceDevice_validate_scheduled_operation_def AcquaintanceDevice_validate_schedule_def)

text \<open>
  C10. On the acquaintance-only device \<open>validate_operation\<close> succeeds for every gate
  operation whose gate is an acquaintance-opportunity gate or a permutation gate, whatever
  its operands (positions or not, on any device or none, adjacent or not); and on no
  operation does it fail with \<open>QubitNotOnDeviceError\<close> or \<open>NonLocalInteractionError\<close>.
\<close>

theorem acquaintance_validate_operation_gate_only:
  "(kind g = AcquaintanceOpportunityGate \<or> isinstance_PermutationGate (kind g)
      \<longrightarrow> AcquaintanceDevice_validate_operation isinstance_PermutationGate (GateOperation g qs)
            = Inr ())
   \<and> AcquaintanceDevice_validate_operation isinstance_PermutationGate operation
        \<noteq> Inl QubitNotOnDeviceError
   \<and> AcquaintanceDevice_validate_operation isinstance_PermutationGate operation
        \<noteq> Inl NonLocalInteractionError"
  by (cases operation) simp_all

theorem acquaintance_validate_operation_gate_only_witness:
  "AcquaintanceDevice_validate_operation only_PermutationGate
      (GateOperation (plain_gate AcquaintanceOpportunityGate) [Named ''a'', at 5 7, at 0 0])
     = Inr ()
   \<and> AcquaintanceDevice_validate_operation only_PermutationGate
      (GateOperation (plain_gate PermutationGate) [at 0 0, at 9 9]) = Inr ()"
  using acquaintance_validate_operation_gate_only[of "plain_gate AcquaintanceOpportunityGate"
      only_PermutationGate "[Named ''a'', at 5 7, at 0 0]"]
    acquaintance_validate_operation_gate_only[of "plain_gate PermutationGate"
      only_PermutationGate "[at 0 0, at 9 9]"]
  by (simp add: plain_gate_def only_PermutationGate_def)

end
